theory Spec2Isabelle
  imports Main "HOL-Library.AList"
begin

section \<open>JavaScript values\<close>

text \<open>
  The values that flow through \<^verbatim>\<open>src/lib/json-utils.ts\<close>. A document's content comes from
  \<^verbatim>\<open>JSON.parse\<close>, so it is built from null, booleans, numbers, strings, arrays and plain
  objects. \<^verbatim>\<open>deepMerge\<close> also meets \<^verbatim>\<open>undefined\<close> (the value of \<^verbatim>\<open>target[key]\<close> for a
  key the target does not have) and what \<^verbatim>\<open>target[key]\<close> finds further up the prototype
  chain: the built-in methods of \<^verbatim>\<open>Object.prototype\<close>, and \<^verbatim>\<open>Object.prototype\<close> itself through
  the \<^verbatim>\<open>__proto__\<close> accessor.

  The code never inspects a number, so the payload of \<open>JNum\<close> is a type parameter.
  An object is the list of its own properties in insertion order; the keys of an object
  are distinct. (An engine lists integer-like keys first, in ascending order, and then the
  other keys in insertion order; the two orders agree on every example below and whenever
  the properties of one object are copied in its own order. The general statement on
  several object documents reads objects through \<open>map_of\<close>, whatever the order.)
\<close>

datatype 'n jsval =
    JUndefined
  | JNull
  | JBool bool
  | JNum 'n
  | JStr string
  | JArr "'n jsval list"
  | JObj "(string \<times> 'n jsval) list"
  | JFun string
  | JObjectPrototype

fun isArray :: "'n jsval \<Rightarrow> bool" where
  "isArray (JArr xs) = True"
| "isArray _ = False"

fun typeof :: "'n jsval \<Rightarrow> string" where
  "typeof JUndefined = ''undefined''"
| "typeof JNull = ''object''"
| "typeof (JBool b) = ''boolean''"
| "typeof (JNum n) = ''number''"
| "typeof (JStr s) = ''string''"
| "typeof (JArr xs) = ''object''"
| "typeof (JObj ps) = ''object''"
| "typeof (JFun f) = ''function''"
| "typeof JObjectPrototype = ''object''"

fun elems :: "'n jsval \<Rightarrow> 'n jsval list" where
  "elems (JArr xs) = xs"
| "elems _ = []"

text \<open>The own enumerable properties: what \<^verbatim>\<open>{ ...target }\<close> copies and \<^verbatim>\<open>for (key in source)\<close>
  visits. \<^verbatim>\<open>Object.prototype\<close> has none.\<close>

fun ownProps :: "'n jsval \<Rightarrow> (string \<times> 'n jsval) list" where
  "ownProps (JObj ps) = ps"
| "ownProps _ = []"

definition hasOwn :: "'n jsval \<Rightarrow> string \<Rightarrow> bool" where
  "hasOwn v key = (map_of (ownProps v) key \<noteq> None)"

text \<open>The data properties of \<^verbatim>\<open>Object.prototype\<close> (ECMAScript, with Annex B); all are
  functions. Its one accessor property is \<^verbatim>\<open>__proto__\<close>.\<close>

definition objectPrototypeMethods :: "string list" where
  "objectPrototypeMethods =
     [''constructor'', ''hasOwnProperty'', ''isPrototypeOf'', ''propertyIsEnumerable'',
      ''toLocaleString'', ''toString'', ''valueOf'', ''__defineGetter__'',
      ''__defineSetter__'', ''__lookupGetter__'', ''__lookupSetter__'']"

text \<open>A lookup that reaches \<^verbatim>\<open>Object.prototype\<close>; the \<^verbatim>\<open>__proto__\<close> getter returns the
  prototype of the object the lookup started from.\<close>

definition objectPrototypeGet :: "'n jsval \<Rightarrow> string \<Rightarrow> 'n jsval" where
  "objectPrototypeGet receiverPrototype key =
     (if key = ''__proto__'' then receiverPrototype
      else if key \<in> set objectPrototypeMethods then JFun key
      else JUndefined)"

text \<open>\<^verbatim>\<open>target[key]\<close>, for the targets the object branch of \<^verbatim>\<open>deepMerge\<close> reads: a plain
  object (whose prototype is \<^verbatim>\<open>Object.prototype\<close>) or \<^verbatim>\<open>Object.prototype\<close> (whose prototype is
  null).\<close>

fun getProp :: "'n jsval \<Rightarrow> string \<Rightarrow> 'n jsval" where
  "getProp (JObj ps) key =
     (case map_of ps key of
        Some v \<Rightarrow> v
      | None \<Rightarrow> objectPrototypeGet JObjectPrototype key)"
| "getProp JObjectPrototype key = objectPrototypeGet JNull key"
| "getProp _ key = JUndefined"

text \<open>
  \<^verbatim>\<open>result[key] = v\<close> on the fresh object \<^verbatim>\<open>result\<close>. An own property is overwritten in
  place and a new key is appended, except for \<^verbatim>\<open>__proto__\<close>: without an own property of
  that name the assignment runs the setter of \<^verbatim>\<open>Object.prototype\<close>, which ignores a primitive
  and otherwise replaces the prototype of \<^verbatim>\<open>result\<close>. Replacing it by \<^verbatim>\<open>Object.prototype\<close>,
  which it already is, changes nothing. An object with any other prototype is outside
  this embedding: the assignment is then \<open>None\<close>.
\<close>

definition setProp ::
  "(string \<times> 'n jsval) list \<Rightarrow> string \<Rightarrow> 'n jsval \<Rightarrow> (string \<times> 'n jsval) list option" where
  "setProp result key v =
     (if map_of result key \<noteq> None then Some (AList.update key v result)
      else if key = ''__proto__'' then
        (case v of
           JNull \<Rightarrow> None
         | JArr xs \<Rightarrow> None
         | JObj ps \<Rightarrow> None
         | JFun f \<Rightarrow> None
         | _ \<Rightarrow> Some result)
      else Some (AList.update key v result))"

section \<open>The data model of \<^verbatim>\<open>types/json.ts\<close>\<close>

text \<open>An error text is a string of the source, or the message of the \<^verbatim>\<open>TypeError\<close> the
  engine raised, whose wording the source does not fix.\<close>

datatype message = Text string | TypeErrorText

record 'n JsonFile =
  file_id :: string
  name :: string
  content :: "'n jsval"
  file_size :: nat

record ValidationResult =
  isValid :: bool
  error :: "message option"
  structureHash :: "string option"

record 'n MergeResult =
  success :: bool
  data :: "'n jsval option"
  merge_error :: "message option"

section \<open>The compatibility check\<close>

text \<open>\<^verbatim>\<open>generateCompatibleStructureHash\<close>: \<^verbatim>\<open>JSON.stringify\<close> of a fixed pair for an array and
  for a non-null object, and of the \<^verbatim>\<open>typeof\<close> name otherwise.\<close>

definition generateCompatibleStructureHash :: "'n jsval \<Rightarrow> string" where
  \<open>generateCompatibleStructureHash obj =
     (if isArray obj then ''["array","flexible-object"]''
      else if typeof obj = ''object'' \<and> obj \<noteq> JNull then ''["object","flexible-properties"]''
      else ''"'' @ typeof obj @ ''"'')\<close>

definition valid :: ValidationResult where
  "valid = \<lparr>isValid = True, error = None, structureHash = None\<rparr>"

definition invalid :: "string \<Rightarrow> ValidationResult" where
  "invalid e = \<lparr>isValid = False, error = Some (Text e), structureHash = None\<rparr>"

definition rootTypeError :: "'n JsonFile \<Rightarrow> 'n JsonFile \<Rightarrow> string" where
  \<open>rootTypeError file file0 =
     ''File "'' @ name file @ ''" has different root type than "'' @ name file0 @
     ''" (array vs object)''\<close>

definition arrayElementError :: "'n JsonFile \<Rightarrow> 'n JsonFile \<Rightarrow> string" where
  \<open>arrayElementError file file0 =
     ''File "'' @ name file @ ''" has incompatible array element structure than "'' @
     name file0 @ ''"''\<close>

definition objectStructureError :: "'n JsonFile \<Rightarrow> 'n JsonFile \<Rightarrow> string" where
  \<open>objectStructureError file file0 =
     ''File "'' @ name file @ ''" has incompatible object structure than "'' @
     name file0 @ ''"''\<close>

text \<open>The three loops of \<^verbatim>\<open>validateStructureConsistency\<close> run over the files from index 1;
  each returns at the first file that fails its test, and \<open>None\<close> when it runs to the end.\<close>

fun rootTypeLoop :: "bool \<Rightarrow> 'n JsonFile \<Rightarrow> 'n JsonFile list \<Rightarrow> ValidationResult option" where
  "rootTypeLoop isFirstArray file0 [] = None"
| "rootTypeLoop isFirstArray file0 (file # files) =
     (let isCurrentArray = isArray (content file) in
      if isFirstArray \<noteq> isCurrentArray then Some (invalid (rootTypeError file file0))
      else rootTypeLoop isFirstArray file0 files)"

text \<open>The callback of the first \<^verbatim>\<open>files.map\<close>: null for an empty array, else the hash of
  the first element (of the content itself, were it not an array).\<close>

definition arrayElementStructure :: "'n JsonFile \<Rightarrow> string option" where
  "arrayElementStructure file =
     (case content file of
        JArr [] \<Rightarrow> None
      | JArr (x # xs) \<Rightarrow> Some (generateCompatibleStructureHash x)
      | c \<Rightarrow> Some (generateCompatibleStructureHash c))"

text \<open>Truthiness of a string-or-null: null and the empty string are falsy.\<close>

fun truthy :: "string option \<Rightarrow> bool" where
  "truthy None = False"
| "truthy (Some s) = (s \<noteq> [])"

fun arrayLoop ::
  "string option \<Rightarrow> 'n JsonFile \<Rightarrow> ('n JsonFile \<times> string option) list \<Rightarrow> ValidationResult option" where
  "arrayLoop baseStructure file0 [] = None"
| "arrayLoop baseStructure file0 ((file, s) # rest) =
     (if truthy s \<and> truthy baseStructure \<and> s \<noteq> baseStructure
      then Some (invalid (arrayElementError file file0))
      else arrayLoop baseStructure file0 rest)"

fun objectLoop ::
  "string \<Rightarrow> 'n JsonFile \<Rightarrow> ('n JsonFile \<times> string) list \<Rightarrow> ValidationResult option" where
  "objectLoop baseStructure file0 [] = None"
| "objectLoop baseStructure file0 ((file, s) # rest) =
     (if s \<noteq> baseStructure
      then Some (invalid (objectStructureError file file0))
      else objectLoop baseStructure file0 rest)"

definition validateStructureConsistency :: "'n JsonFile list \<Rightarrow> ValidationResult" where
  "validateStructureConsistency files =
     (if length files = 0 then invalid ''No files to validate''
      else if length files = 1 then valid
      else
        let file0 = files ! 0;
            isFirstArray = isArray (content file0)
        in case rootTypeLoop isFirstArray file0 (tl files) of
             Some r \<Rightarrow> r
           | None \<Rightarrow>
               if isFirstArray then
                 (let compatibleStructures = map arrayElementStructure files;
                      baseStructure = compatibleStructures ! 0
                  in case arrayLoop baseStructure file0 (tl (zip files compatibleStructures)) of
                       Some r \<Rightarrow> r
                     | None \<Rightarrow> valid)
               else
                 (let compatibleStructures =
                        map (\<lambda>file. generateCompatibleStructureHash (content file)) files;
                      baseStructure = compatibleStructures ! 0
                  in case objectLoop baseStructure file0 (tl (zip files compatibleStructures)) of
                       Some r \<Rightarrow> r
                     | None \<Rightarrow> valid))"

section \<open>The merge\<close>

text \<open>How a call ends: with a value, with the \<^verbatim>\<open>TypeError\<close> of calling something that is
  not a function, or by replacing the prototype of the object under construction (see
  \<open>setProp\<close>), where this embedding stops.\<close>

datatype 'a completion = Normal 'a | ThrowTypeError | PrototypeReplaced

text \<open>
  \<^verbatim>\<open>deepMerge\<close>. In the object branch \<open>deepMergeLoop\<close> is the \<^verbatim>\<open>for (key in source)\<close> loop
  over the own properties of the source, building \<^verbatim>\<open>result\<close> from the copy of the target's
  own properties. \<^verbatim>\<open>source.hasOwnProperty(key)\<close> calls whatever \<^verbatim>\<open>source.hasOwnProperty\<close> is:
  the inherited method, which answers true for an own key, unless the source has an own
  property of that name, which no JSON value makes callable.
\<close>

function deepMerge :: "'n jsval \<Rightarrow> 'n jsval \<Rightarrow> 'n jsval completion"
  and deepMergeLoop ::
    "'n jsval \<Rightarrow> 'n jsval \<Rightarrow> (string \<times> 'n jsval) list \<Rightarrow> (string \<times> 'n jsval) list
       \<Rightarrow> 'n jsval completion"
where
  "deepMerge target source =
     (if source = JNull \<or> source = JUndefined then Normal target
      else if target = JNull \<or> target = JUndefined then Normal source
      else if isArray target \<and> isArray source then Normal (JArr (elems target @ elems source))
      else if typeof target = ''object'' \<and> typeof source = ''object''
              \<and> \<not> isArray target \<and> \<not> isArray source
        then deepMergeLoop target source (ownProps target) (ownProps source)
      else Normal source)"
| "deepMergeLoop target source result [] = Normal (JObj result)"
| "deepMergeLoop target source result ((key, s) # rest) =
     (if hasOwn source ''hasOwnProperty'' then ThrowTypeError
      else case deepMerge (getProp target key) s of
             Normal v \<Rightarrow>
               (case setProp result key v of
                  Some result' \<Rightarrow> deepMergeLoop target source result' rest
                | None \<Rightarrow> PrototypeReplaced)
           | ThrowTypeError \<Rightarrow> ThrowTypeError
           | PrototypeReplaced \<Rightarrow> PrototypeReplaced)"
  by pat_completeness auto

termination
proof -
  have own: "size_list (size_prod (\<lambda>_. 0) size) (ownProps v) \<le> size v" for v :: "'n jsval"
    by (cases v) simp_all
  show ?thesis
    by (relation "measure (\<lambda>x. case x of
            Inl (target, source) \<Rightarrow> Suc (size source)
          | Inr (target, source, result, rest) \<Rightarrow> size_list (size_prod (\<lambda>_. 0) size) rest)")
       (auto simp: less_Suc_eq_le intro: own)
qed

text \<open>\<^verbatim>\<open>files.reduce((acc, file) => deepMerge(acc, file.content), seed)\<close>.\<close>

fun reduceFiles :: "'n jsval \<Rightarrow> 'n JsonFile list \<Rightarrow> 'n jsval completion" where
  "reduceFiles acc [] = Normal acc"
| "reduceFiles acc (file # files) =
     (case deepMerge acc (content file) of
        Normal acc' \<Rightarrow> reduceFiles acc' files
      | ThrowTypeError \<Rightarrow> ThrowTypeError
      | PrototypeReplaced \<Rightarrow> PrototypeReplaced)"

text \<open>\<^verbatim>\<open>mergeJsonFiles\<close>. The \<^verbatim>\<open>try\<close> block turns a thrown error into a failure that carries
  the error's message. The result is \<open>None\<close> where the embedding stops.\<close>

definition mergeJsonFiles :: "'n JsonFile list \<Rightarrow> 'n MergeResult option" where
  "mergeJsonFiles files =
     (if length files = 0
      then Some \<lparr>success = False, data = None, merge_error = Some (Text ''No files to merge'')\<rparr>
      else
        let structureValidation = validateStructureConsistency files
        in if \<not> isValid structureValidation
           then Some \<lparr>success = False, data = None, merge_error = error structureValidation\<rparr>
           else
             let isArrayType = isArray (content (files ! 0))
             in case reduceFiles (if isArrayType then JArr [] else JObj []) files of
                  Normal merged \<Rightarrow> Some \<lparr>success = True, data = Some merged, merge_error = None\<rparr>
                | ThrowTypeError \<Rightarrow>
                    Some \<lparr>success = False, data = None, merge_error = Some TypeErrorText\<rparr>
                | PrototypeReplaced \<Rightarrow> None)"

section \<open>Vocabulary of the statements\<close>

text \<open>A value as \<^verbatim>\<open>JSON.parse\<close> builds it: no \<^verbatim>\<open>undefined\<close>, no function, and the keys of
  every object distinct.\<close>

fun json :: "'n jsval \<Rightarrow> bool" where
  "json JNull = True"
| "json (JBool b) = True"
| "json (JNum n) = True"
| "json (JStr s) = True"
| "json (JArr xs) = list_all json xs"
| "json (JObj ps) = (distinct (map fst ps) \<and> list_all (\<lambda>p. json (snd p)) ps)"
| "json _ = False"

text \<open>The names of the members of \<^verbatim>\<open>Object.prototype\<close>: the accessor \<^verbatim>\<open>__proto__\<close> and the
  methods.\<close>

definition objectPrototypeKeys :: "string list" where
  "objectPrototypeKeys = ''__proto__'' # objectPrototypeMethods"

text \<open>No object that \<^verbatim>\<open>deepMerge\<close> can descend into has an own key that is the name of a
  member of \<^verbatim>\<open>Object.prototype\<close>. (\<^verbatim>\<open>deepMerge\<close> descends through the values of objects and
  never into an array.)\<close>

fun ordinaryKeys :: "'n jsval \<Rightarrow> bool" where
  "ordinaryKeys (JObj ps) =
     (list_all (\<lambda>p. fst p \<notin> set objectPrototypeKeys) ps \<and>
      list_all (\<lambda>p. ordinaryKeys (snd p)) ps)"
| "ordinaryKeys _ = True"

text \<open>A document whose root is an object with distinct, ordinary keys.\<close>

definition objectDocument :: "'n JsonFile \<Rightarrow> bool" where
  "objectDocument file =
     (case content file of
        JObj ps \<Rightarrow> distinct (map fst ps) \<and> ordinaryKeys (JObj ps)
      | _ \<Rightarrow> False)"

text \<open>The values the documents bind to a key, in upload order, and their merge from left
  to right.\<close>

fun valuesAt :: "string \<Rightarrow> 'n JsonFile list \<Rightarrow> 'n jsval list" where
  "valuesAt key [] = []"
| "valuesAt key (file # files) =
     (case map_of (ownProps (content file)) key of
        None \<Rightarrow> valuesAt key files
      | Some v \<Rightarrow> v # valuesAt key files)"

fun mergeValues :: "'n jsval \<Rightarrow> 'n jsval list \<Rightarrow> 'n jsval completion" where
  "mergeValues acc [] = Normal acc"
| "mergeValues acc (s # ss) =
     (case deepMerge acc s of
        Normal acc' \<Rightarrow> mergeValues acc' ss
      | ThrowTypeError \<Rightarrow> ThrowTypeError
      | PrototypeReplaced \<Rightarrow> PrototypeReplaced)"

fun primitive :: "'n jsval \<Rightarrow> bool" where
  "primitive (JBool b) = True"
| "primitive (JNum n) = True"
| "primitive (JStr s) = True"
| "primitive _ = False"

text \<open>The own properties of a single object document after its merge into the empty seed:
  a null (or \<^verbatim>\<open>undefined\<close>) at the top level is replaced by what the seed yields for its
  key.\<close>

definition nullsFromSeed :: "(string \<times> 'n jsval) list \<Rightarrow> (string \<times> 'n jsval) list" where
  "nullsFromSeed ps =
     map (\<lambda>(k, s). (k, if s = JNull \<or> s = JUndefined then getProp (JObj []) k else s)) ps"

subsection \<open>Example documents\<close>

definition document :: "string \<Rightarrow> 'n jsval \<Rightarrow> 'n JsonFile" where
  "document n c = \<lparr>file_id = n, name = n, content = c, file_size = 0\<rparr>"

text \<open>Scenario 3 of the specification: \<^verbatim>\<open>{"a":[1,2]}\<close> and \<^verbatim>\<open>{"a":[3],"d":null}\<close>.\<close>

definition scenario3 :: "int JsonFile list" where
  "scenario3 =
     [document ''first.json'' (JObj [(''a'', JArr [JNum 1, JNum 2])]),
      document ''second.json'' (JObj [(''a'', JArr [JNum 3]), (''d'', JNull)])]"

text \<open>\<^verbatim>\<open>{"id":1,"avatar":null}\<close>.\<close>

definition avatarDocument :: "int JsonFile" where
  "avatarDocument = document ''user.json'' (JObj [(''id'', JNum 1), (''avatar'', JNull)])"

text \<open>\<^verbatim>\<open>{"a":1,"toString":"x","n":{"z":null}}\<close>.\<close>

definition plainDocument :: "int JsonFile" where
  "plainDocument =
     document ''plain.json''
       (JObj [(''a'', JNum 1), (''toString'', JStr ''x''), (''n'', JObj [(''z'', JNull)])])"

text \<open>\<^verbatim>\<open>[null,{"hasOwnProperty":1}]\<close>.\<close>

definition listDocument :: "int JsonFile" where
  "listDocument =
     document ''list.json'' (JArr [JNull, JObj [(''hasOwnProperty'', JNum 1)]])"

text \<open>\<^verbatim>\<open>{"a":1,"b":2}\<close> and \<^verbatim>\<open>{"a":null,"c":null}\<close>.\<close>

definition nullOverride :: "int JsonFile list" where
  "nullOverride =
     [document ''one.json'' (JObj [(''a'', JNum 1), (''b'', JNum 2)]),
      document ''two.json'' (JObj [(''a'', JNull), (''c'', JNull)])]"

text \<open>\<^verbatim>\<open>{"a":1,"n":{"x":[1]}}\<close>, \<^verbatim>\<open>{"n":{"x":[2],"y":true},"b":"s"}\<close> and \<^verbatim>\<open>{"a":7}\<close>.\<close>

definition nestedDocuments :: "int JsonFile list" where
  "nestedDocuments =
     [document ''one.json'' (JObj [(''a'', JNum 1), (''n'', JObj [(''x'', JArr [JNum 1])])]),
      document ''two.json''
        (JObj [(''n'', JObj [(''x'', JArr [JNum 2]), (''y'', JBool True)]), (''b'', JStr ''s'')]),
      document ''three.json'' (JObj [(''a'', JNum 7)])]"

text \<open>\<^verbatim>\<open>[1,2]\<close>, \<^verbatim>\<open>[]\<close> and \<^verbatim>\<open>[2,3]\<close>.\<close>

definition numberLists :: "int JsonFile list" where
  "numberLists =
     [document ''a.json'' (JArr [JNum 1, JNum 2]),
      document ''b.json'' (JArr []),
      document ''c.json'' (JArr [JNum 2, JNum 3])]"

text \<open>\<^verbatim>\<open>[]\<close>, \<^verbatim>\<open>[1]\<close> and \<^verbatim>\<open>["x"]\<close>.\<close>

definition emptyFirst :: "int JsonFile list" where
  "emptyFirst =
     [document ''a.json'' (JArr []),
      document ''b.json'' (JArr [JNum 1]),
      document ''c.json'' (JArr [JStr ''x''])]"

text \<open>\<^verbatim>\<open>[1,2,3]\<close>, \<^verbatim>\<open>[]\<close>, \<^verbatim>\<open>{"x":1}\<close> and \<^verbatim>\<open>{"y":2}\<close>.\<close>

definition mixedRoots :: "int JsonFile list" where
  "mixedRoots =
     [document ''a.json'' (JArr [JNum 1, JNum 2, JNum 3]),
      document ''b.json'' (JArr []),
      document ''c.json'' (JObj [(''x'', JNum 1)]),
      document ''d.json'' (JObj [(''y'', JNum 2)])]"

text \<open>\<^verbatim>\<open>{"a":1}\<close> and \<^verbatim>\<open>{"b":[null],"c":{"d":"e"}}\<close>.\<close>

definition differentKeys :: "int JsonFile list" where
  "differentKeys =
     [document ''a.json'' (JObj [(''a'', JNum 1)]),
      document ''b.json'' (JObj [(''b'', JArr [JNull]), (''c'', JObj [(''d'', JStr ''e'')])])]"

section \<open>The compatibility check: loops\<close>

lemma rootTypeLoop_same:
  "\<forall>f\<in>set fs. isArray (content f) = b \<Longrightarrow> rootTypeLoop b f0 fs = None"
  by (induction fs) simp_all

lemma rootTypeLoop_first:
  "\<forall>f\<in>set pre. isArray (content f) = b \<Longrightarrow> isArray (content g) \<noteq> b \<Longrightarrow>
   rootTypeLoop b f0 (pre @ g # post) = Some (invalid (rootTypeError g f0))"
  by (induction pre) auto

lemma arrayLoop_empty_base: "arrayLoop None f0 ps = None"
  by (induction ps) auto

lemma objectLoop_same:
  "\<forall>p\<in>set ps. snd p = base \<Longrightarrow> objectLoop base f0 ps = None"
  by (induction ps) auto

lemma rootTypeLoop_invalid:
  "rootTypeLoop b f0 fs = Some r \<Longrightarrow> \<exists>e. r = invalid e"
  by (induction fs) (auto simp: Let_def split: if_splits)

lemma arrayLoop_invalid:
  "arrayLoop base f0 ps = Some r \<Longrightarrow> \<exists>e. r = invalid e"
  by (induction ps) (auto split: if_splits)

lemma objectLoop_invalid:
  "objectLoop base f0 ps = Some r \<Longrightarrow> \<exists>e. r = invalid e"
  by (induction ps) (auto split: if_splits)

lemma validate_invalid_text:
  "\<not> isValid (validateStructureConsistency files) \<Longrightarrow>
   \<exists>e. validateStructureConsistency files = invalid e"
  by (auto simp: validateStructureConsistency_def valid_def Let_def
      split: if_splits option.splits
      dest: rootTypeLoop_invalid arrayLoop_invalid objectLoop_invalid)

lemma hash_object:
  \<open>generateCompatibleStructureHash (JObj ps) = ''["object","flexible-properties"]''\<close>
  by (simp add: generateCompatibleStructureHash_def)

lemma validate_object_roots:
  assumes "files \<noteq> []" and "\<forall>f\<in>set files. \<exists>ps. content f = JObj ps"
  shows "validateStructureConsistency files = valid"
proof -
  obtain f0 rest where files: "files = f0 # rest"
    using assms(1) by (cases files) auto
  have notarr: "\<forall>f\<in>set files. isArray (content f) = False"
    using assms(2) by auto
  have root: "rootTypeLoop False f0 rest = None"
    using notarr files by (intro rootTypeLoop_same) simp
  have hashes: "\<forall>f\<in>set files.
      generateCompatibleStructureHash (content f) = generateCompatibleStructureHash (content f0)"
    using assms(2) files by (auto simp: hash_object)
  have loop: "objectLoop (generateCompatibleStructureHash (content f0)) f0
                (zip rest (map (\<lambda>file. generateCompatibleStructureHash (content file)) rest)) = None"
    using hashes files by (intro objectLoop_same) (auto simp: set_zip)
  show ?thesis
    using root loop notarr files
    by (simp add: validateStructureConsistency_def Let_def)
qed

section \<open>The compatibility check: statements\<close>

text \<open>
  Claim C3, amended. The fingerprint of a value is the JSON text of a fixed pair for an
  array and for an object, and the JSON text of the \<^verbatim>\<open>typeof\<close> name for anything else.
  The \<^verbatim>\<open>typeof\<close> name of null is \<^verbatim>\<open>object\<close>, so the fingerprint of null is \<^verbatim>\<open>"object"\<close>, not
  \<^verbatim>\<open>"null"\<close>. It still differs from the fingerprint of an object, so an array that starts
  with null and an array that starts with an object have different element structures.
\<close>

theorem fingerprint_by_kind:
  \<open>generateCompatibleStructureHash (JArr xs) = ''["array","flexible-object"]'' \<and>
   generateCompatibleStructureHash (JObj ps) = ''["object","flexible-properties"]'' \<and>
   generateCompatibleStructureHash (JStr s) = ''"string"'' \<and>
   generateCompatibleStructureHash (JNum n) = ''"number"'' \<and>
   generateCompatibleStructureHash (JBool b) = ''"boolean"'' \<and>
   generateCompatibleStructureHash JNull = ''"object"'' \<and>
   generateCompatibleStructureHash (JNull :: 'n jsval) \<noteq> generateCompatibleStructureHash (JObj ps) \<and>
   arrayElementStructure (file\<lparr>content := JArr (JNull # xs)\<rparr>) \<noteq>
     arrayElementStructure (file'\<lparr>content := JArr (JObj ps # ys)\<rparr>)\<close>
  by (simp add: generateCompatibleStructureHash_def arrayElementStructure_def)

text \<open>Claim C3 as stated fails at null: its fingerprint is not the kind name \<^verbatim>\<open>null\<close>, bare
  or quoted.\<close>

theorem fingerprint_null_counterexample:
  \<open>generateCompatibleStructureHash (JNull :: int jsval) = ''"object"'' \<and>
   generateCompatibleStructureHash (JNull :: int jsval) \<noteq> ''null'' \<and>
   generateCompatibleStructureHash (JNull :: int jsval) \<noteq> ''"null"''\<close>
  by (simp add: generateCompatibleStructureHash_def)

text \<open>
  Claim C6. For a non-empty sequence of documents whose roots are all objects,
  \<^verbatim>\<open>validateStructureConsistency\<close> answers valid, whatever keys and nested values the objects
  have.
\<close>

theorem map_roots_always_compatible:
  assumes "files \<noteq> []" and "\<forall>f\<in>set files. \<exists>ps. content f = JObj ps"
  shows "validateStructureConsistency files =
     \<lparr>isValid = True, error = None, structureHash = None\<rparr>"
  using validate_object_roots [OF assms] by (simp add: valid_def)

theorem map_roots_always_compatible_witness:
  "validateStructureConsistency differentKeys =
     \<lparr>isValid = True, error = None, structureHash = None\<rparr>"
  using map_roots_always_compatible [of differentKeys]
  by (simp add: differentKeys_def document_def)

text \<open>
  Claim C8. In a sequence of two or more documents, let \<open>g\<close> be the first document whose
  root is an array where the root of document 0 is not, or the other way round. Then
  \<^verbatim>\<open>validateStructureConsistency\<close> answers invalid with the one message that names \<open>g\<close>,
  document 0 and \<^verbatim>\<open>array vs object\<close>, whatever documents follow \<open>g\<close>.
\<close>

theorem first_root_mismatch:
  assumes "\<forall>f\<in>set pre. isArray (content f) = isArray (content f0)"
    and "isArray (content g) \<noteq> isArray (content f0)"
  shows \<open>validateStructureConsistency (f0 # pre @ g # post) =
     \<lparr>isValid = False,
      error = Some (Text (''File "'' @ name g @ ''" has different root type than "'' @
                          name f0 @ ''" (array vs object)'')),
      structureHash = None\<rparr>\<close>
  using rootTypeLoop_first [OF assms, of f0 post]
  by (simp add: validateStructureConsistency_def invalid_def rootTypeError_def Let_def)

theorem first_root_mismatch_witness:
  \<open>validateStructureConsistency mixedRoots =
     \<lparr>isValid = False,
      error = Some (Text ''File "c.json" has different root type than "a.json" (array vs object)''),
      structureHash = None\<rparr>\<close>
  using first_root_mismatch
    [of "[document ''b.json'' (JArr [])]" "document ''a.json'' (JArr [JNum 1, JNum 2, JNum 3])"
        "document ''c.json'' (JObj [(''x'', JNum 1)])" "[document ''d.json'' (JObj [(''y'', JNum 2)])]"]
  by (simp add: mixedRoots_def document_def)

text \<open>
  Claim C10. When the root of document 0 is the empty array and every root is an array,
  \<^verbatim>\<open>validateStructureConsistency\<close> answers valid: the element structures are compared with
  that of document 0 only, which is null, and a null base skips every comparison.
\<close>

theorem empty_base_list_compatible:
  assumes "files \<noteq> []" and "content (hd files) = JArr []"
    and "\<forall>f\<in>set files. isArray (content f)"
  shows "validateStructureConsistency files =
     \<lparr>isValid = True, error = None, structureHash = None\<rparr>"
proof -
  obtain f0 rest where files: "files = f0 # rest"
    using assms(1) by (cases files) auto
  have root: "rootTypeLoop True f0 rest = None"
    using assms(3) files by (intro rootTypeLoop_same) simp
  have base: "arrayElementStructure f0 = None"
    using assms(2) files by (simp add: arrayElementStructure_def)
  show ?thesis
    using root base assms(2) files
    by (simp add: validateStructureConsistency_def valid_def Let_def arrayLoop_empty_base)
qed

text \<open>The two later documents of the witness have different element structures.\<close>

theorem empty_base_list_compatible_witness:
  "validateStructureConsistency emptyFirst =
     \<lparr>isValid = True, error = None, structureHash = None\<rparr> \<and>
   arrayElementStructure (emptyFirst ! 1) \<noteq> arrayElementStructure (emptyFirst ! 2)"
  using empty_base_list_compatible [of emptyFirst]
  by (simp add: emptyFirst_def document_def arrayElementStructure_def
      generateCompatibleStructureHash_def)

section \<open>The merge: cases of \<^verbatim>\<open>deepMerge\<close>\<close>

declare deepMerge.simps [simp del]

lemma deepMerge_absent_source [simp]:
  "deepMerge t JNull = Normal t" "deepMerge t JUndefined = Normal t"
  by (simp_all add: deepMerge.simps)

lemma deepMerge_primitive_source:
  "primitive s \<Longrightarrow> deepMerge t s = Normal s"
  by (cases s) (simp_all add: deepMerge.simps)

lemma deepMerge_absent_target:
  "s \<noteq> JNull \<Longrightarrow> s \<noteq> JUndefined \<Longrightarrow> deepMerge JUndefined s = Normal s"
  "s \<noteq> JNull \<Longrightarrow> s \<noteq> JUndefined \<Longrightarrow> deepMerge (JFun f) s = Normal s"
  by (simp_all add: deepMerge.simps)

lemma deepMerge_arrays [simp]: "deepMerge (JArr xs) (JArr ys) = Normal (JArr (xs @ ys))"
  by (simp add: deepMerge.simps)

lemma deepMerge_objects [simp]:
  "deepMerge (JObj T) (JObj S) = deepMergeLoop (JObj T) (JObj S) T S"
  by (simp add: deepMerge.simps)

lemma setProp_ordinary:
  "key \<noteq> ''__proto__'' \<Longrightarrow> setProp result key v = Some (AList.update key v result)"
  by (simp add: setProp_def)

lemma reduceFiles_arrays:
  "\<forall>f\<in>set files. isArray (content f) \<Longrightarrow>
   reduceFiles (JArr acc) files =
     Normal (JArr (acc @ concat (map (\<lambda>f. elems (content f)) files)))"
proof (induction files arbitrary: acc)
  case Nil
  then show ?case by simp
next
  case (Cons f files)
  then obtain ys where ys: "content f = JArr ys"
    by (cases "content f") auto
  show ?case
    using Cons ys by simp
qed

section \<open>The merge: statements on failures and on array roots\<close>

text \<open>
  Claim C9. \<^verbatim>\<open>mergeJsonFiles\<close> on no documents fails, with no data and with the message
  that there are no files to merge.
\<close>

theorem merge_empty_sequence:
  "mergeJsonFiles [] =
     Some \<lparr>success = False, data = None, merge_error = Some (Text ''No files to merge'')\<rparr>"
  by (simp add: mergeJsonFiles_def)

text \<open>
  Claim C7, amended. For every non-empty sequence of documents that
  \<^verbatim>\<open>validateStructureConsistency\<close> rejects, \<^verbatim>\<open>mergeJsonFiles\<close> fails with the error of the
  check and with no data. (The empty sequence is turned away before the check, with a
  message of its own.)
\<close>

theorem merge_fails_with_checker_reason:
  assumes "files \<noteq> []" and "\<not> isValid (validateStructureConsistency files)"
  shows "mergeJsonFiles files =
       Some \<lparr>success = False, data = None,
             merge_error = error (validateStructureConsistency files)\<rparr> \<and>
     error (validateStructureConsistency files) \<noteq> None"
proof -
  obtain e where "validateStructureConsistency files = invalid e"
    using validate_invalid_text [OF assms(2)] by blast
  then show ?thesis
    using assms(1) by (simp add: mergeJsonFiles_def invalid_def)
qed

theorem merge_fails_with_checker_reason_witness:
  \<open>mergeJsonFiles mixedRoots =
     Some \<lparr>success = False, data = None,
           merge_error =
             Some (Text ''File "c.json" has different root type than "a.json" (array vs object)'')\<rparr>\<close>
proof -
  have bad: "\<not> isValid (validateStructureConsistency mixedRoots)"
    by code_simp
  have err: \<open>error (validateStructureConsistency mixedRoots) =
      Some (Text ''File "c.json" has different root type than "a.json" (array vs object)'')\<close>
    by code_simp
  have "mixedRoots \<noteq> []"
    by (simp add: mixedRoots_def)
  from merge_fails_with_checker_reason [OF this bad] err show ?thesis
    by simp
qed

text \<open>Claim C7 as stated fails at the empty sequence: the check rejects it with one
  message and \<^verbatim>\<open>mergeJsonFiles\<close> fails with another.\<close>

theorem merge_reason_counterexample:
  "\<not> isValid (validateStructureConsistency ([] :: int JsonFile list)) \<and>
   error (validateStructureConsistency ([] :: int JsonFile list)) =
     Some (Text ''No files to validate'') \<and>
   mergeJsonFiles ([] :: int JsonFile list) =
     Some \<lparr>success = False, data = None, merge_error = Some (Text ''No files to merge'')\<rparr> \<and>
   map_option merge_error (mergeJsonFiles ([] :: int JsonFile list)) \<noteq>
     Some (error (validateStructureConsistency ([] :: int JsonFile list)))"
  by (simp add: mergeJsonFiles_def validateStructureConsistency_def invalid_def)

text \<open>
  Claim C5. For a non-empty sequence of documents whose roots are all arrays and which
  passes the check, \<^verbatim>\<open>mergeJsonFiles\<close> succeeds with the concatenation of the roots in
  upload order: every element once, in its place, none dropped and none combined.
\<close>

theorem list_roots_concatenate:
  assumes "files \<noteq> []" and "\<forall>f\<in>set files. isArray (content f)"
    and "isValid (validateStructureConsistency files)"
  shows "mergeJsonFiles files =
     Some \<lparr>success = True,
           data = Some (JArr (concat (map (\<lambda>f. elems (content f)) files))),
           merge_error = None\<rparr>"
proof -
  have "isArray (content (files ! 0))"
    using assms(1,2) by (cases files) auto
  then show ?thesis
    using assms reduceFiles_arrays [OF assms(2), of "[]"]
    by (simp add: mergeJsonFiles_def)
qed

theorem list_roots_concatenate_witness:
  "mergeJsonFiles numberLists =
     Some \<lparr>success = True,
           data = Some (JArr [JNum 1, JNum 2, JNum 2, JNum 3]),
           merge_error = None\<rparr>"
proof -
  have ok: "isValid (validateStructureConsistency numberLists)"
    by code_simp
  have arrays: "\<forall>f\<in>set numberLists. isArray (content f)"
    by (simp add: numberLists_def document_def)
  have "numberLists \<noteq> []"
    by (simp add: numberLists_def)
  from list_roots_concatenate [OF this arrays ok] show ?thesis
    by (simp add: numberLists_def document_def)
qed

section \<open>The merge: object roots\<close>

text \<open>
  Claim C1, amended. On the documents \<^verbatim>\<open>{"a":[1,2]}\<close> and \<^verbatim>\<open>{"a":[3],"d":null}\<close> the merge
  succeeds; the arrays under the shared key \<^verbatim>\<open>a\<close> are concatenated; the key \<^verbatim>\<open>d\<close>, which only
  the second document has and binds to null, is a key of the result bound to
  \<^verbatim>\<open>undefined\<close>: for a null source \<^verbatim>\<open>deepMerge\<close> returns its target, and the target is the
  missing \<^verbatim>\<open>target["d"]\<close>.
\<close>

theorem scenario3_merge:
  "mergeJsonFiles scenario3 =
     Some \<lparr>success = True,
           data = Some (JObj [(''a'', JArr [JNum 1, JNum 2, JNum 3]), (''d'', JUndefined)]),
           merge_error = None\<rparr>"
  by code_simp

text \<open>Claim C1 as stated fails: the result is not the object that binds \<^verbatim>\<open>d\<close> to null.\<close>

theorem scenario3_null_counterexample:
  "mergeJsonFiles scenario3 \<noteq>
     Some \<lparr>success = True,
           data = Some (JObj [(''a'', JArr [JNum 1, JNum 2, JNum 3]), (''d'', JNull)]),
           merge_error = None\<rparr>"
  by code_simp

text \<open>Ordinary keys: none is \<^verbatim>\<open>hasOwnProperty\<close> or \<^verbatim>\<open>__proto__\<close>, and the empty seed yields
  \<^verbatim>\<open>undefined\<close> for each.\<close>

lemma ordinaryKeys_object:
  assumes "ordinaryKeys (JObj ps)"
  shows "map_of ps ''hasOwnProperty'' = None \<and> map_of ps ''__proto__'' = None \<and>
     list_all (\<lambda>p. ordinaryKeys (snd p)) ps"
proof -
  have "\<forall>p\<in>set ps. fst p \<noteq> ''hasOwnProperty'' \<and> fst p \<noteq> ''__proto__''"
    using assms by (auto simp: list_all_iff objectPrototypeKeys_def objectPrototypeMethods_def)
  then have "''hasOwnProperty'' \<notin> fst ` set ps" "''__proto__'' \<notin> fst ` set ps"
    by auto
  then show ?thesis
    using assms by (simp add: map_of_eq_None_iff)
qed

lemma ordinaryKeys_bound:
  assumes "ordinaryKeys (JObj ps)" and "map_of ps key \<noteq> None"
  shows "key \<notin> set objectPrototypeKeys"
proof -
  obtain v where "(key, v) \<in> set ps"
    using assms(2) by (auto dest: map_of_SomeD)
  then show ?thesis
    using assms(1) by (auto simp: list_all_iff)
qed

lemma seed_undefined:
  "key \<notin> set objectPrototypeKeys \<Longrightarrow> getProp (JObj []) key = JUndefined"
  by (simp add: objectPrototypeGet_def objectPrototypeKeys_def)

text \<open>The object loop on ordinary keys runs to its end, whatever the target.\<close>

lemma ordinaryKeys_total:
  "ordinaryKeys source \<Longrightarrow> \<exists>v. deepMerge target source = Normal v"
  "\<not> hasOwn source ''hasOwnProperty'' \<Longrightarrow> map_of rest ''__proto__'' = None \<Longrightarrow>
   list_all (\<lambda>p. ordinaryKeys (snd p)) rest \<Longrightarrow>
   \<exists>r. deepMergeLoop target source result rest = Normal (JObj r)"
proof (induction target source and target source result rest rule: deepMerge_deepMergeLoop.induct)
  case (1 target source)
  show ?case
  proof (cases "typeof target = ''object'' \<and> typeof source = ''object''
              \<and> \<not> isArray target \<and> \<not> isArray source \<and> source \<noteq> JNull \<and> target \<noteq> JNull")
    case True
    then have not: "\<not> (source = JNull \<or> source = JUndefined)"
      "\<not> (target = JNull \<or> target = JUndefined)" "\<not> (isArray target \<and> isArray source)"
      by auto
    have "\<not> hasOwn source ''hasOwnProperty'' \<and> map_of (ownProps source) ''__proto__'' = None
        \<and> list_all (\<lambda>p. ordinaryKeys (snd p)) (ownProps source)"
      using "1.prems" ordinaryKeys_object
      by (cases source) (auto simp: hasOwn_def simp del: ordinaryKeys.simps)
    then obtain r where
      "deepMergeLoop target source (ownProps target) (ownProps source) = Normal (JObj r)"
      using "1.IH" [OF not] True by blast
    then show ?thesis
      using True not by (simp add: deepMerge.simps)
  next
    case False
    then show ?thesis
      by (auto simp: deepMerge.simps)
  qed
next
  case (2 target source result)
  then show ?case by simp
next
  case (3 target source result key s rest)
  from "3.prems" have key: "key \<noteq> ''__proto__''" and s: "ordinaryKeys s"
    and rest: "map_of rest ''__proto__'' = None" "list_all (\<lambda>p. ordinaryKeys (snd p)) rest"
    by (auto split: if_splits)
  obtain v where v: "deepMerge (getProp target key) s = Normal v"
    using "3.IH"(1) [OF "3.prems"(1) s] by blast
  have sp: "setProp result key v = Some (AList.update key v result)"
    using key by (rule setProp_ordinary)
  show ?case
    using "3.IH"(2) [OF "3.prems"(1) v sp "3.prems"(1) rest] v sp "3.prems"(1)
    by simp
qed

text \<open>What the loop binds: a key of the source to the merge of the target's value with the
  source's, any other key as the copy of the target had it.\<close>

lemma deepMergeLoop_bindings:
  assumes "distinct (map fst rest)" and "\<not> hasOwn source ''hasOwnProperty''"
    and "map_of rest ''__proto__'' = None" and "list_all (\<lambda>p. ordinaryKeys (snd p)) rest"
  shows "\<exists>r. deepMergeLoop target source result rest = Normal (JObj r) \<and>
     (\<forall>k. case map_of rest k of
            None \<Rightarrow> map_of r k = map_of result k
          | Some s \<Rightarrow> \<exists>v. deepMerge (getProp target k) s = Normal v \<and> map_of r k = Some v)"
  using assms
proof (induction rest arbitrary: result)
  case Nil
  then show ?case by simp
next
  case (Cons p rest)
  obtain key s where p: "p = (key, s)" by (cases p)
  from Cons.prems p have key: "key \<noteq> ''__proto__''" and s: "ordinaryKeys s"
    and rest: "distinct (map fst rest)" "map_of rest ''__proto__'' = None"
      "list_all (\<lambda>p. ordinaryKeys (snd p)) rest"
    and fresh: "map_of rest key = None"
    by (auto split: if_splits simp: map_of_eq_None_iff)
  obtain v where v: "deepMerge (getProp target key) s = Normal v"
    using ordinaryKeys_total(1) [OF s] by blast
  let ?result' = "AList.update key v result"
  obtain r where r: "deepMergeLoop target source ?result' rest = Normal (JObj r)"
    and bind: "\<And>k. case map_of rest k of
            None \<Rightarrow> map_of r k = map_of ?result' k
          | Some s \<Rightarrow> \<exists>v. deepMerge (getProp target k) s = Normal v \<and> map_of r k = Some v"
    using Cons.IH [OF rest(1) Cons.prems(2) rest(2,3), of ?result'] by blast
  have run: "deepMergeLoop target source result (p # rest) = Normal (JObj r)"
    using r v key Cons.prems(2) p by (simp add: setProp_ordinary)
  have "case map_of (p # rest) k of
            None \<Rightarrow> map_of r k = map_of result k
          | Some s \<Rightarrow> \<exists>v. deepMerge (getProp target k) s = Normal v \<and> map_of r k = Some v" for k
  proof (cases "k = key")
    case True
    then show ?thesis
      using bind [of key] fresh v p by (simp add: update_conv')
  next
    case False
    then show ?thesis
      using bind [of k] p by (simp add: update_conv' split: option.splits)
  qed
  with run show ?case by blast
qed

lemma objectDocument_root:
  "objectDocument f \<Longrightarrow>
   \<exists>ps. content f = JObj ps \<and> distinct (map fst ps) \<and> ordinaryKeys (JObj ps)"
  by (cases "content f") (simp_all add: objectDocument_def)

lemma getProp_same_binding:
  "map_of ps k = map_of qs k \<Longrightarrow> getProp (JObj ps) k = getProp (JObj qs) k"
  by simp

text \<open>The fold over object documents: the keys of the result, and its value at each key
  as the merge of the values the documents bind to that key.\<close>

lemma reduceFiles_objects:
  assumes "\<forall>f\<in>set files. objectDocument f"
  shows "\<exists>merged. reduceFiles (JObj acc) files = Normal (JObj merged) \<and>
     (\<forall>k. (map_of merged k \<noteq> None) =
            (map_of acc k \<noteq> None \<or> (\<exists>f\<in>set files. hasOwn (content f) k))) \<and>
     (\<forall>k. mergeValues (getProp (JObj acc) k) (valuesAt k files) =
            Normal (getProp (JObj merged) k))"
  using assms
proof (induction files arbitrary: acc)
  case Nil
  then show ?case by simp
next
  case (Cons f files)
  then obtain ps where ps: "content f = JObj ps" "distinct (map fst ps)" "ordinaryKeys (JObj ps)"
    using objectDocument_root [of f] by auto
  then have safe: "\<not> hasOwn (JObj ps) ''hasOwnProperty''" "map_of ps ''__proto__'' = None"
    "list_all (\<lambda>p. ordinaryKeys (snd p)) ps"
    using ordinaryKeys_object [of ps] by (simp_all add: hasOwn_def)
  obtain acc' where step: "deepMergeLoop (JObj acc) (JObj ps) acc ps = Normal (JObj acc')"
    and bind: "\<And>k. case map_of ps k of
            None \<Rightarrow> map_of acc' k = map_of acc k
          | Some s \<Rightarrow> \<exists>v. deepMerge (getProp (JObj acc) k) s = Normal v \<and> map_of acc' k = Some v"
    using deepMergeLoop_bindings [OF ps(2) safe, of "JObj acc" acc] by blast
  obtain merged where run: "reduceFiles (JObj acc') files = Normal (JObj merged)"
    and keys: "\<And>k. (map_of merged k \<noteq> None) =
            (map_of acc' k \<noteq> None \<or> (\<exists>f\<in>set files. hasOwn (content f) k))"
    and vals: "\<And>k. mergeValues (getProp (JObj acc') k) (valuesAt k files) =
            Normal (getProp (JObj merged) k)"
    using Cons.IH [of acc'] Cons.prems by auto
  have 1: "reduceFiles (JObj acc) (f # files) = Normal (JObj merged)"
    using step run ps(1) by simp
  have 2: "(map_of merged k \<noteq> None) =
            (map_of acc k \<noteq> None \<or> (\<exists>f\<in>set (f # files). hasOwn (content f) k))" for k
    using keys [of k] bind [of k] ps(1) by (auto simp: hasOwn_def split: option.splits)
  have 3: "mergeValues (getProp (JObj acc) k) (valuesAt k (f # files)) =
            Normal (getProp (JObj merged) k)" for k
  proof (cases "map_of ps k")
    case None
    then have "getProp (JObj acc') k = getProp (JObj acc) k"
      using bind [of k] by (intro getProp_same_binding) simp
    then show ?thesis
      using vals [of k] None ps(1) by simp
  next
    case (Some s)
    then obtain v where "deepMerge (getProp (JObj acc) k) s = Normal v" "map_of acc' k = Some v"
      using bind [of k] by auto
    then show ?thesis
      using vals [of k] Some ps(1) by simp
  qed
  from 1 2 3 show ?case by blast
qed

lemma mergeValues_snoc:
  "mergeValues acc (vs @ [s]) =
     (case mergeValues acc vs of
        Normal a \<Rightarrow> deepMerge a s
      | ThrowTypeError \<Rightarrow> ThrowTypeError
      | PrototypeReplaced \<Rightarrow> PrototypeReplaced)"
  by (induction vs arbitrary: acc) (auto split: completion.splits)

lemma valuesAt_bound:
  "valuesAt key files \<noteq> [] \<Longrightarrow> \<exists>f\<in>set files. hasOwn (content f) key"
  by (induction files) (auto simp: hasOwn_def split: option.splits)

lemma deepMerge_onto_seed:
  assumes "key \<noteq> ''__proto__''"
  shows "deepMerge (getProp (JObj []) key) s =
     Normal (if s = JNull \<or> s = JUndefined then getProp (JObj []) key else s)"
  using assms by (simp add: objectPrototypeGet_def deepMerge_absent_target)

lemma bound_key_ordinary:
  assumes "\<forall>f\<in>set files. objectDocument f" and "f \<in> set files" and "hasOwn (content f) key"
  shows "key \<notin> set objectPrototypeKeys"
proof -
  have "objectDocument f"
    using assms(1,2) by blast
  then obtain ps where ps: "content f = JObj ps" "ordinaryKeys (JObj ps)"
    using objectDocument_root [of f] by auto
  then have "map_of ps key \<noteq> None"
    using assms(3) by (simp add: hasOwn_def)
  with ps(2) show ?thesis
    by (rule ordinaryKeys_bound)
qed

text \<open>A single object document merged into the empty seed.\<close>

lemma update_fresh: "map_of al k = None \<Longrightarrow> AList.update k v al = al @ [(k, v)]"
  by (induction al) (auto split: if_splits)

lemma deepMergeLoop_seed:
  assumes "distinct (map fst rest)" and "\<forall>p\<in>set rest. map_of result (fst p) = None"
    and "\<not> hasOwn source ''hasOwnProperty''" and "map_of rest ''__proto__'' = None"
  shows "deepMergeLoop (JObj []) source result rest = Normal (JObj (result @ nullsFromSeed rest))"
  using assms
proof (induction rest arbitrary: result)
  case Nil
  then show ?case by (simp add: nullsFromSeed_def)
next
  case (Cons p rest)
  obtain key s where p: "p = (key, s)" by (cases p)
  from Cons.prems p have key: "key \<noteq> ''__proto__''" and fresh: "map_of result key = None"
    and rest: "distinct (map fst rest)" "map_of rest ''__proto__'' = None"
    and others: "\<forall>q\<in>set rest. fst q \<noteq> key \<and> map_of result (fst q) = None"
    by (auto split: if_splits)
  define v where "v = (if s = JNull \<or> s = JUndefined then getProp (JObj []) key else s)"
  have merged: "deepMerge (getProp (JObj []) key) s = Normal v"
    unfolding v_def using key by (rule deepMerge_onto_seed)
  have assigned: "setProp result key v = Some (result @ [(key, v)])"
    using key fresh by (simp add: setProp_ordinary update_fresh)
  have "\<forall>q\<in>set rest. map_of (result @ [(key, v)]) (fst q) = None"
    using others by (auto simp: map_add_def split: option.splits)
  then have "deepMergeLoop (JObj []) source (result @ [(key, v)]) rest =
      Normal (JObj ((result @ [(key, v)]) @ nullsFromSeed rest))"
    using Cons.IH [OF rest(1) _ Cons.prems(3) rest(2)] by blast
  then show ?case
    using merged assigned Cons.prems(3) p
    by (simp add: nullsFromSeed_def v_def del: getProp.simps)
qed

lemma nullsFromSeed_unchanged:
  "JNull \<notin> snd ` set ps \<Longrightarrow> JUndefined \<notin> snd ` set ps \<Longrightarrow> nullsFromSeed ps = ps"
  unfolding nullsFromSeed_def by (induction ps) (auto simp del: getProp.simps)

lemma json_object_values:
  "json (JObj ps) \<Longrightarrow> distinct (map fst ps) \<and> JUndefined \<notin> snd ` set ps"
  by (auto simp: list_all_iff)

lemma validate_single: "validateStructureConsistency [file] = valid"
  by (simp add: validateStructureConsistency_def)

text \<open>
  Claim C2, amended. Merging a single document whose root is an array returns that root.
  Merging a single document whose root is an object with no key named
  \<^verbatim>\<open>hasOwnProperty\<close> or \<^verbatim>\<open>__proto__\<close> returns the root with every top-level null replaced by
  what the empty seed yields for its key (\<^verbatim>\<open>undefined\<close>, for a key that is not the name of
  a method of \<^verbatim>\<open>Object.prototype\<close>); so it returns the root unchanged when no top-level
  value is null. Nulls below the top level stay.
\<close>

theorem single_document_merge:
  assumes "json (content file)"
  shows "(isArray (content file) \<longrightarrow>
        mergeJsonFiles [file] =
          Some \<lparr>success = True, data = Some (content file), merge_error = None\<rparr>) \<and>
     (\<forall>ps. content file = JObj ps \<and> map_of ps ''hasOwnProperty'' = None \<and>
           map_of ps ''__proto__'' = None \<longrightarrow>
        mergeJsonFiles [file] =
          Some \<lparr>success = True, data = Some (JObj (nullsFromSeed ps)), merge_error = None\<rparr> \<and>
        (JNull \<notin> snd ` set ps \<longrightarrow>
           mergeJsonFiles [file] =
             Some \<lparr>success = True, data = Some (content file), merge_error = None\<rparr>))"
proof -
  have array: "mergeJsonFiles [file] =
      Some \<lparr>success = True, data = Some (content file), merge_error = None\<rparr>"
    if arr: "isArray (content file)"
  proof -
    obtain xs where "content file = JArr xs"
      using arr by (cases "content file") auto
    then show ?thesis
      by (simp add: mergeJsonFiles_def validate_single valid_def)
  qed
  have run: "mergeJsonFiles [file] =
      Some \<lparr>success = True, data = Some (JObj (nullsFromSeed ps)), merge_error = None\<rparr>"
    if "content file = JObj ps" "map_of ps ''hasOwnProperty'' = None"
      "map_of ps ''__proto__'' = None" for ps
  proof -
    have "distinct (map fst ps)"
      using assms that(1) json_object_values [of ps] by simp
    then have "deepMergeLoop (JObj []) (JObj ps) [] ps = Normal (JObj ([] @ nullsFromSeed ps))"
      using that by (intro deepMergeLoop_seed) (simp_all add: hasOwn_def)
    then show ?thesis
      using that(1) by (simp add: mergeJsonFiles_def validate_single valid_def)
  qed
  have same: "nullsFromSeed ps = ps" if "content file = JObj ps" "JNull \<notin> snd ` set ps" for ps
  proof -
    have "JUndefined \<notin> snd ` set ps"
      using assms that(1) json_object_values [of ps] by simp
    with that(2) show ?thesis
      by (rule nullsFromSeed_unchanged)
  qed
  show ?thesis
    using array run same by (metis (no_types, lifting))
qed

theorem single_document_merge_witness:
  "mergeJsonFiles [plainDocument] =
     Some \<lparr>success = True, data = Some (content plainDocument), merge_error = None\<rparr> \<and>
   mergeJsonFiles [listDocument] =
     Some \<lparr>success = True, data = Some (content listDocument), merge_error = None\<rparr> \<and>
   mergeJsonFiles [avatarDocument] =
     Some \<lparr>success = True,
           data = Some (JObj [(''id'', JNum 1), (''avatar'', JUndefined)]),
           merge_error = None\<rparr>"
proof -
  have plain: "json (content plainDocument)"
    by (simp add: plainDocument_def document_def)
  have list: "json (content listDocument)"
    by (simp add: listDocument_def document_def)
  have avatar: "json (content avatarDocument)"
    by (simp add: avatarDocument_def document_def)
  show ?thesis
    using single_document_merge [OF plain] single_document_merge [OF list]
      single_document_merge [OF avatar]
    by (simp add: plainDocument_def listDocument_def avatarDocument_def document_def
        nullsFromSeed_def objectPrototypeGet_def objectPrototypeMethods_def)
qed

text \<open>Claim C2 as stated fails at \<^verbatim>\<open>{"id":1,"avatar":null}\<close>: the merge succeeds with a value
  that is not the root of the document.\<close>

theorem single_document_null_counterexample:
  "content avatarDocument = JObj [(''id'', JNum 1), (''avatar'', JNull)] \<and>
   mergeJsonFiles [avatarDocument] \<noteq>
     Some \<lparr>success = True, data = Some (content avatarDocument), merge_error = None\<rparr>"
  by code_simp

text \<open>
  Claim C4, amended. Take a non-empty sequence of documents whose roots are objects, where
  neither a root nor an object nested in it through the values of objects (not inside an
  array) has a key that is the name of a member of \<^verbatim>\<open>Object.prototype\<close>. The merge succeeds
  with an object whose keys are the keys of all the documents. Its value at a key is the
  merge, from left to right with \<^verbatim>\<open>deepMerge\<close> and begun from \<^verbatim>\<open>undefined\<close>, of the values the
  documents bind to that key. Hence: the value of a key that one document alone binds, to
  a value that is not null, is that value; a later boolean, number or string replaces
  whatever came before; a later null replaces nothing; and a key bound to null alone is
  bound to \<^verbatim>\<open>undefined\<close> in the result.
\<close>

theorem map_roots_merge:
  assumes "files \<noteq> []" and "\<forall>f\<in>set files. objectDocument f"
  shows "\<exists>merged.
     mergeJsonFiles files =
       Some \<lparr>success = True, data = Some (JObj merged), merge_error = None\<rparr> \<and>
     (\<forall>key. (map_of merged key \<noteq> None) = (\<exists>f\<in>set files. hasOwn (content f) key)) \<and>
     (\<forall>key v. map_of merged key = Some v \<longrightarrow>
        mergeValues JUndefined (valuesAt key files) = Normal v) \<and>
     (\<forall>key s. valuesAt key files = [s] \<and> s \<noteq> JNull \<and> s \<noteq> JUndefined \<longrightarrow>
        map_of merged key = Some s) \<and>
     (\<forall>key vs s. valuesAt key files = vs @ [s] \<and> primitive s \<longrightarrow>
        map_of merged key = Some s) \<and>
     (\<forall>key vs. valuesAt key files = vs @ [JNull] \<longrightarrow>
        (\<exists>v. map_of merged key = Some v \<and> mergeValues JUndefined vs = Normal v)) \<and>
     (\<forall>key. valuesAt key files = [JNull] \<longrightarrow> map_of merged key = Some JUndefined)"
proof -
  have roots: "\<forall>f\<in>set files. \<exists>ps. content f = JObj ps"
    using assms(2) objectDocument_root by blast
  have ok: "validateStructureConsistency files = valid"
    using assms(1) roots by (rule validate_object_roots)
  have first: "\<not> isArray (content (files ! 0))"
    using assms(1) roots by (cases files) auto
  obtain merged where fold: "reduceFiles (JObj []) files = Normal (JObj merged)"
    and keys: "\<And>k. (map_of merged k \<noteq> None) = (\<exists>f\<in>set files. hasOwn (content f) k)"
    and vals: "\<And>k. mergeValues (getProp (JObj []) k) (valuesAt k files) =
            Normal (getProp (JObj merged) k)"
    using reduceFiles_objects [OF assms(2), of "[]"] by auto
  have run: "mergeJsonFiles files =
       Some \<lparr>success = True, data = Some (JObj merged), merge_error = None\<rparr>"
    using assms(1) ok first fold by (simp add: mergeJsonFiles_def valid_def)
  have seed: "getProp (JObj []) key = JUndefined"
    if some: "\<exists>f\<in>set files. hasOwn (content f) key" for key
  proof -
    obtain f where "f \<in> set files" "hasOwn (content f) key"
      using some by blast
    with assms(2) have "key \<notin> set objectPrototypeKeys"
      by (rule bound_key_ordinary)
    then show ?thesis
      by (rule seed_undefined)
  qed
  have chain: "mergeValues JUndefined (valuesAt key files) = Normal v"
    if bound: "map_of merged key = Some v" for key v
  proof -
    have "\<exists>f\<in>set files. hasOwn (content f) key"
      using keys [of key] bound by simp
    then have begun: "getProp (JObj []) key = JUndefined"
      by (rule seed)
    have own: "getProp (JObj merged) key = v"
      using bound by simp
    from vals [of key] show ?thesis
      unfolding begun own .
  qed
  have bound: "\<exists>v. map_of merged key = Some v \<and>
      mergeValues JUndefined (valuesAt key files) = Normal v"
    if some: "valuesAt key files \<noteq> []" for key
  proof -
    have "\<exists>f\<in>set files. hasOwn (content f) key"
      using some by (rule valuesAt_bound)
    then have "map_of merged key \<noteq> None"
      using keys [of key] by blast
    then show ?thesis
      using chain by blast
  qed
  have single: "map_of merged key = Some s"
    if one: "valuesAt key files = [s]" "s \<noteq> JNull" "s \<noteq> JUndefined" for key s
  proof -
    obtain v where v: "map_of merged key = Some v"
      "mergeValues JUndefined (valuesAt key files) = Normal v"
      using bound [of key] one(1) by auto
    have "deepMerge JUndefined s = Normal s"
      using one(2,3) by (rule deepMerge_absent_target(1))
    then show ?thesis
      using v one(1) by simp
  qed
  have last_primitive: "map_of merged key = Some s"
    if last: "valuesAt key files = vs @ [s]" "primitive s" for key vs s
  proof -
    obtain v where v: "map_of merged key = Some v"
      "mergeValues JUndefined (valuesAt key files) = Normal v"
      using bound [of key] last(1) by auto
    then show ?thesis
      using last by (auto simp: mergeValues_snoc deepMerge_primitive_source
          split: completion.splits)
  qed
  have last_null: "\<exists>v. map_of merged key = Some v \<and> mergeValues JUndefined vs = Normal v"
    if last: "valuesAt key files = vs @ [JNull]" for key vs
  proof -
    obtain v where v: "map_of merged key = Some v"
      "mergeValues JUndefined (valuesAt key files) = Normal v"
      using bound [of key] last by auto
    then show ?thesis
      using last by (auto simp: mergeValues_snoc split: completion.splits)
  qed
  have only_null: "map_of merged key = Some JUndefined"
    if "valuesAt key files = [JNull]" for key
    using last_null [of key "[]"] that by simp
  show ?thesis
    using run keys chain single last_primitive last_null only_null
    by (intro exI [of _ merged]) blast
qed

theorem map_roots_merge_witness:
  "mergeJsonFiles nestedDocuments =
     Some \<lparr>success = True,
           data = Some (JObj [(''a'', JNum 7),
                              (''n'', JObj [(''x'', JArr [JNum 1, JNum 2]), (''y'', JBool True)]),
                              (''b'', JStr ''s'')]),
           merge_error = None\<rparr> \<and>
   valuesAt ''a'' nestedDocuments = [JNum 1, JNum 7] \<and>
   valuesAt ''b'' nestedDocuments = [JStr ''s'']"
proof -
  have docs: "nestedDocuments \<noteq> []" "\<forall>f\<in>set nestedDocuments. objectDocument f"
    by (simp_all add: nestedDocuments_def document_def objectDocument_def
        objectPrototypeKeys_def objectPrototypeMethods_def)
  have a: "valuesAt ''a'' nestedDocuments = [JNum 1] @ [JNum 7]"
    by (simp add: nestedDocuments_def document_def)
  have b: "valuesAt ''b'' nestedDocuments = [JStr ''s'']"
    by (simp add: nestedDocuments_def document_def)
  obtain merged where run: "mergeJsonFiles nestedDocuments =
       Some \<lparr>success = True, data = Some (JObj merged), merge_error = None\<rparr>"
    and last: "\<And>key vs s. valuesAt key nestedDocuments = vs @ [s] \<and> primitive s \<longrightarrow>
        map_of merged key = Some s"
    and single: "\<And>key s. valuesAt key nestedDocuments = [s] \<and> s \<noteq> JNull \<and> s \<noteq> JUndefined \<longrightarrow>
        map_of merged key = Some s"
    using map_roots_merge [OF docs] by blast
  have "map_of merged ''a'' = Some (JNum 7)"
    using last [of "''a''" "[JNum 1]" "JNum 7"] a by simp
  moreover have "map_of merged ''b'' = Some (JStr ''s'')"
    using single [of "''b''" "JStr ''s''"] b by simp
  moreover have "mergeJsonFiles nestedDocuments =
     Some \<lparr>success = True,
           data = Some (JObj [(''a'', JNum 7),
                              (''n'', JObj [(''x'', JArr [JNum 1, JNum 2]), (''y'', JBool True)]),
                              (''b'', JStr ''s'')]),
           merge_error = None\<rparr>"
    by code_simp
  ultimately show ?thesis
    using run a b by simp
qed

text \<open>Claim C4 as stated fails at \<^verbatim>\<open>{"a":1,"b":2}\<close> and \<^verbatim>\<open>{"a":null,"c":null}\<close>: the later
  null does not replace the 1 under \<^verbatim>\<open>a\<close>, and \<^verbatim>\<open>c\<close>, which only the second document
  binds, does not keep its value null.\<close>

theorem null_override_counterexample:
  "mergeJsonFiles nullOverride =
     Some \<lparr>success = True,
           data = Some (JObj [(''a'', JNum 1), (''b'', JNum 2), (''c'', JUndefined)]),
           merge_error = None\<rparr> \<and>
   valuesAt ''a'' nullOverride = [JNum 1, JNull] \<and>
   valuesAt ''c'' nullOverride = [JNull]"
  by code_simp

section \<open>Keys that meet \<^verbatim>\<open>Object.prototype\<close>\<close>

text \<open>
  Why the statements on object roots set key names aside. A document with an own key
  \<^verbatim>\<open>hasOwnProperty\<close> makes \<^verbatim>\<open>source.hasOwnProperty(key)\<close> a call of a value that is not a
  function: the merge fails with the engine's message. An own key \<^verbatim>\<open>__proto__\<close> bound to a
  number is assigned through the setter of \<^verbatim>\<open>Object.prototype\<close>, which ignores it: the key
  is lost. A key named after a method of \<^verbatim>\<open>Object.prototype\<close> and bound to null comes out
  bound to that method.
\<close>

lemma hasOwnProperty_key_throws:
  "mergeJsonFiles [document ''x.json'' (JObj [(''hasOwnProperty'', JNum (1 :: int))])] =
     Some \<lparr>success = False, data = None, merge_error = Some TypeErrorText\<rparr>"
  by code_simp

lemma proto_key_lost:
  "mergeJsonFiles [document ''x.json'' (JObj [(''__proto__'', JNum (1 :: int))])] =
     Some \<lparr>success = True, data = Some (JObj []), merge_error = None\<rparr>"
  by code_simp

lemma method_key_null:
  "mergeJsonFiles [document ''x.json'' (JObj [(''toString'', JNull :: int jsval)])] =
     Some \<lparr>success = True, data = Some (JObj [(''toString'', JFun ''toString'')]),
           merge_error = None\<rparr>"
  by code_simp

end
